theory Spec2Isabelle
  imports Complex_Main "HOL-Library.Char_ord" "HOL-Library.List_Lexorder" "HOL-Library.Sublist"
begin

section \<open>Python values and exceptions\<close>

text \<open>
  The two modules verified here are \<^verbatim>\<open>fee_service.py\<close> (the fee calculator) and
  \<^verbatim>\<open>dynamodb_service.py\<close> (the ledger store on a single DynamoDB table).

  Numbers. Python's \<^verbatim>\<open>float\<close> and \<^verbatim>\<open>Decimal\<close> amounts are modelled as exact
  rationals: the decimal literals of the source (\<^verbatim>\<open>4.0\<close>, \<^verbatim>\<open>12.50\<close>, \<^verbatim>\<open>0.03\<close>,
  \<^verbatim>\<open>0.035\<close>) denote the rationals they spell, and \<^verbatim>\<open>+\<close>, \<^verbatim>\<open>*\<close>, \<^verbatim>\<open>/\<close> are exact.
  The rounding error of binary64 arithmetic, infinities and NaN are outside the model.
  Division by zero raises, as in Python.
\<close>

datatype py_error =
    ZeroDivisionError
  | TypeError
  | ValueError
  | DecimalException
  | ParamValidationError
  | ClientError string

text \<open>
  \<^verbatim>\<open>round(x, n)\<close> on a float rounds to \<open>n\<close> decimal places, a tie going to the even
  neighbour.
\<close>

definition round_half_even :: "rat \<Rightarrow> int" where
  "round_half_even x =
     (let f = \<lfloor>x\<rfloor>; r = x - of_int f
      in if r < 1 / 2 then f
         else if 1 / 2 < r then f + 1
         else if even f then f else f + 1)"

definition py_round :: "rat \<Rightarrow> nat \<Rightarrow> rat" where
  "py_round x ndigits = of_int (round_half_even (x * 10 ^ ndigits)) / 10 ^ ndigits"

section \<open>The fee service (\<^verbatim>\<open>fee_service.py\<close>)\<close>

text \<open>The dataclass \<^verbatim>\<open>FeeStructure\<close> and its default values.\<close>

record FeeStructure =
  transaction_fee_percent :: rat
  deployment_fee_usd :: rat
  subscription_fee_monthly_usd :: rat
  premium_feature_fee_min_usd :: rat
  premium_feature_fee_max_usd :: rat
  max_effective_fee_percent :: rat

definition default_fee_structure :: FeeStructure where
  "default_fee_structure =
     \<lparr> transaction_fee_percent = 4,
       deployment_fee_usd = 25 / 2,
       subscription_fee_monthly_usd = 15,
       premium_feature_fee_min_usd = 5,
       premium_feature_fee_max_usd = 10,
       max_effective_fee_percent = 11 \<rparr>"

text \<open>
  The dictionary returned by \<^verbatim>\<open>calculate_deal_fees\<close>. The keys
  \<^verbatim>\<open>deployment_fee_usd\<close> and \<^verbatim>\<open>subscription_fee_usd\<close> carry the prefix \<open>out_\<close>
  here, since the fee structure has fields of those names. Of the nested
  \<^verbatim>\<open>competitiveness\<close> dictionary the model keeps the number that the string
  \<^verbatim>\<open>vs_nil_platforms\<close> prints (\<^verbatim>\<open>round(15 - effective_percent, 1)\<close>) and the
  \<^verbatim>\<open>retention_score\<close>; the constant string \<^verbatim>\<open>vs_blockchain_norms\<close> and the
  \<^verbatim>\<open>fee_structure\<close> dictionary, which only print the configuration, are left out.
\<close>

record deal_fees =
  deal_value_usd :: rat
  transaction_fee_usd :: rat
  out_deployment_fee_usd :: rat
  out_subscription_fee_usd :: rat
  premium_fee_usd :: rat
  total_effective_fee_usd :: rat
  effective_fee_percentage :: rat
  vs_nil_platforms_undercut :: rat
  retention_score :: string

text \<open>
  The cap adjustment of \<^verbatim>\<open>calculate_deal_fees\<close> (the \<^verbatim>\<open>if\<close> block that reassigns
  \<^verbatim>\<open>transaction_fee\<close>, \<^verbatim>\<open>total_fee\<close> and \<^verbatim>\<open>effective_percent\<close>): it returns the three
  variables as they stand after the block. It is only reached with a non-zero deal value.
\<close>

definition cap_adjustment ::
  "FeeStructure \<Rightarrow> rat \<Rightarrow> rat \<Rightarrow> rat \<Rightarrow> rat \<Rightarrow> rat \<Rightarrow> rat \<Rightarrow> rat \<times> rat \<times> rat" where
  "cap_adjustment fs deal_value transaction_fee deployment_fee subscription_fee premium_fee
       total_fee =
     (let effective_percent = (total_fee / deal_value) * 100
      in if effective_percent > max_effective_fee_percent fs then
           (let transaction_fee' =
                  (if deal_value < 1000 then min transaction_fee (deal_value * (3 / 100))
                   else if deal_value < 2000 then min transaction_fee (deal_value * (35 / 1000))
                   else transaction_fee);
                total_fee' = transaction_fee' + deployment_fee + subscription_fee + premium_fee
            in (transaction_fee', total_fee', (total_fee' / deal_value) * 100))
         else (transaction_fee, total_fee, effective_percent))"

definition calculate_deal_fees :: "FeeStructure \<Rightarrow> rat \<Rightarrow> py_error + deal_fees" where
  "calculate_deal_fees fs deal_value =
     (let transaction_fee = deal_value * (transaction_fee_percent fs / 100);
          deployment_fee = deployment_fee_usd fs;
          subscription_fee = subscription_fee_monthly_usd fs;
          premium_fee = 0;
          total_fee = transaction_fee + deployment_fee + subscription_fee + premium_fee
      in if deal_value = 0 then Inl ZeroDivisionError
         else
           (case cap_adjustment fs deal_value transaction_fee deployment_fee subscription_fee
                   premium_fee total_fee of
              (transaction_fee', total_fee', effective_percent) \<Rightarrow>
                Inr \<lparr> deal_value_usd = deal_value,
                      transaction_fee_usd = py_round transaction_fee' 2,
                      out_deployment_fee_usd = deployment_fee,
                      out_subscription_fee_usd = subscription_fee,
                      premium_fee_usd = premium_fee,
                      total_effective_fee_usd = py_round total_fee' 2,
                      effective_fee_percentage = py_round effective_percent 1,
                      vs_nil_platforms_undercut = py_round (15 - effective_percent) 1,
                      retention_score = (if effective_percent < 11 then ''High'' else ''Medium'') \<rparr>))"

definition validate_premium_feature_fee :: "FeeStructure \<Rightarrow> rat \<Rightarrow> bool" where
  "validate_premium_feature_fee fs fee_usd =
     (premium_feature_fee_min_usd fs \<le> fee_usd \<and> fee_usd \<le> premium_feature_fee_max_usd fs)"

section \<open>The DynamoDB table behind the ledger store\<close>

text \<open>
  \<^verbatim>\<open>dynamodb_service.py\<close> talks to one DynamoDB table through boto3's \<^verbatim>\<open>Table\<close>
  resource. The table is not code of the repository; this section fixes what the model
  takes it to do.

  An attribute value is a Python string, \<^verbatim>\<open>int\<close>, \<^verbatim>\<open>float\<close> or \<^verbatim>\<open>Decimal\<close>. An item
  is a dictionary, written as the list of its key/value pairs in the order of the
  source's dictionary literal.
\<close>

datatype py_value = PStr string | PInt int | PFloat rat | PDecimal rat

type_synonym item = "(string \<times> py_value) list"

definition str_attr :: "item \<Rightarrow> string \<Rightarrow> string option" where
  "str_attr i k = (case map_of i k of Some (PStr s) \<Rightarrow> Some s | _ \<Rightarrow> None)"

text \<open>
  The table handle: the items stored, and the failure (if any) that the backend answers
  every request with, a transport error or an error response of the service, which boto3
  raises as an exception.
\<close>

record table =
  stored_items :: "item list"
  fault :: "py_error option"

text \<open>
  boto3 serialises an item before it sends it, attribute by attribute. A \<^verbatim>\<open>float\<close> is
  refused with a \<^verbatim>\<open>TypeError\<close> (only \<^verbatim>\<open>int\<close> and \<^verbatim>\<open>Decimal\<close> are numbers for it).
  A number is converted in the decimal context \<^verbatim>\<open>DYNAMODB_CONTEXT\<close> (precision 38,
  \<^verbatim>\<open>Emin = -128\<close>, \<^verbatim>\<open>Emax = 126\<close>, with the signals \<^verbatim>\<open>Clamped\<close>, \<^verbatim>\<open>Overflow\<close>,
  \<^verbatim>\<open>Inexact\<close>, \<^verbatim>\<open>Rounded\<close> and \<^verbatim>\<open>Underflow\<close> trapped), which raises one of these
  signals, all of them subclasses of \<^verbatim>\<open>decimal.DecimalException\<close>, unless the number fits:
  its magnitude is below \<open>10 ^ 127\<close>, its last digit is not below the position
  \<open>10 ^ -165\<close>, and it has at most 38 significant digits. A \<^verbatim>\<open>Decimal\<close> is identified
  with its value here, written without trailing zeros (so is the \<^verbatim>\<open>Decimal(str(x))\<close> of a
  float \<open>x\<close>, whose shortest representation has at most 17 digits); an \<^verbatim>\<open>int\<close> keeps
  all its digits, trailing zeros included.
\<close>

function strip_zeros :: "nat \<Rightarrow> nat" where
  "strip_zeros m = (if m = 0 then 0 else if m mod 10 = 0 then strip_zeros (m div 10) else m)"
  by pat_completeness auto
termination
  by (relation "measure (\<lambda>m. m)") auto

declare strip_zeros.simps [simp del]

definition decimal_context_accepts :: "rat \<Rightarrow> bool" where
  "decimal_context_accepts x =
     (x = 0 \<or>
      (\<bar>x\<bar> < 10 ^ 127 \<and>
       of_int \<lfloor>x * 10 ^ 165\<rfloor> = x * 10 ^ 165 \<and>
       strip_zeros (nat \<bar>\<lfloor>x * 10 ^ 165\<rfloor>\<bar>) < 10 ^ 38))"

fun serialization_error :: "py_value \<Rightarrow> py_error option" where
  "serialization_error (PStr s) = None"
| "serialization_error (PInt n) = (if \<bar>n\<bar> < 10 ^ 38 then None else Some DecimalException)"
| "serialization_error (PFloat x) = Some TypeError"
| "serialization_error (PDecimal x) =
     (if decimal_context_accepts x then None else Some DecimalException)"

text \<open>The first attribute that cannot be serialised decides the exception.\<close>

fun first_serialization_error :: "item \<Rightarrow> py_error option" where
  "first_serialization_error [] = None"
| "first_serialization_error ((k, v) # rest) =
     (case serialization_error v of
        Some e \<Rightarrow> Some e
      | None \<Rightarrow> first_serialization_error rest)"

text \<open>
  The service itself accepts a number that is zero or whose magnitude is at least
  \<open>10 ^ -130\<close> and below \<open>10 ^ 126\<close>, and answers any other with a
  \<^verbatim>\<open>ValidationException\<close>. Every number is read back as a \<^verbatim>\<open>Decimal\<close>.
\<close>

definition in_number_range :: "rat \<Rightarrow> bool" where
  "in_number_range x = (x = 0 \<or> (1 / 10 ^ 130 \<le> \<bar>x\<bar> \<and> \<bar>x\<bar> < 10 ^ 126))"

fun value_in_range :: "py_value \<Rightarrow> bool" where
  "value_in_range (PInt n) = in_number_range (of_int n)"
| "value_in_range (PDecimal x) = in_number_range x"
| "value_in_range v = True"

text \<open>A number that both the client and the service accept.\<close>

definition dynamodb_number :: "rat \<Rightarrow> bool" where
  "dynamodb_number x = (decimal_context_accepts x \<and> in_number_range x)"

fun stored_value :: "py_value \<Rightarrow> py_value" where
  "stored_value (PInt n) = PDecimal (of_int n)"
| "stored_value v = v"

definition stored_form :: "item \<Rightarrow> item" where
  "stored_form i = map (\<lambda>(k, v). (k, stored_value v)) i"

definition same_key :: "item \<Rightarrow> item \<Rightarrow> bool" where
  "same_key a b = (map_of a ''PK'' = map_of b ''PK'' \<and> map_of a ''SK'' = map_of b ''SK'')"

text \<open>
  \<^verbatim>\<open>put_item\<close> writes the whole item under its primary key (the string attributes
  \<^verbatim>\<open>PK\<close> and \<^verbatim>\<open>SK\<close>), replacing an item that has the same key. The serialisation
  comes first, then the request, which fails if the backend fails, then the service's
  own validation of the item.
\<close>

definition put_item :: "table \<Rightarrow> item \<Rightarrow> py_error + table" where
  "put_item t i =
     (case first_serialization_error i of
        Some e \<Rightarrow> Inl e
      | None \<Rightarrow>
          (case fault t of
             Some e \<Rightarrow> Inl e
           | None \<Rightarrow>
               if str_attr i ''PK'' = None \<or> str_attr i ''SK'' = None \<or>
                  list_ex (\<lambda>(k, v). \<not> value_in_range v) i
               then Inl (ClientError ''ValidationException'')
               else Inr (t\<lparr>stored_items :=
                      filter (\<lambda>j. \<not> same_key j (stored_form i)) (stored_items t)
                        @ [stored_form i]\<rparr>)))"

text \<open>\<^verbatim>\<open>get_item(Key=...)\<close> followed by \<^verbatim>\<open>response.get('Item')\<close>.\<close>

definition get_item :: "table \<Rightarrow> string \<Rightarrow> string \<Rightarrow> py_error + item option" where
  "get_item t pk sk =
     (case fault t of
        Some e \<Rightarrow> Inl e
      | None \<Rightarrow>
          Inr (find (\<lambda>i. str_attr i ''PK'' = Some pk \<and> str_attr i ''SK'' = Some sk)
                 (stored_items t)))"

text \<open>
  \<^verbatim>\<open>query\<close> reads one partition of the table or of a secondary index: the items whose
  partition key attribute equals the given value and whose sort key attribute meets the
  condition, in the order of the sort key (strings compare byte by byte), descending when
  \<^verbatim>\<open>ScanIndexForward\<close> is false, cut to \<^verbatim>\<open>Limit\<close> items. An item that lacks one of
  the key attributes of a secondary index is not in that index. The order among items of
  equal sort key is not fixed by DynamoDB; the model keeps the order of writing.
  The model returns the whole result in one response: the service never follows
  \<^verbatim>\<open>LastEvaluatedKey\<close>, so beyond the size of one page (1 MB) the real result is
  cut short, which the model does not represent.
\<close>

datatype index_name = Primary | GSI1 | GSI2

fun index_keys :: "index_name \<Rightarrow> string \<times> string" where
  "index_keys Primary = (''PK'', ''SK'')"
| "index_keys GSI1 = (''GSI1PK'', ''GSI1SK'')"
| "index_keys GSI2 = (''GSI2PK'', ''GSI2SK'')"

datatype sort_condition = BeginsWith string | Between string string

fun sort_condition_holds :: "sort_condition \<Rightarrow> string \<Rightarrow> bool" where
  "sort_condition_holds (BeginsWith p) s = prefix p s"
| "sort_condition_holds (Between lo hi) s = (lo \<le> s \<and> s \<le> hi)"

definition in_partition :: "index_name \<Rightarrow> string \<Rightarrow> sort_condition \<Rightarrow> item \<Rightarrow> bool" where
  "in_partition ix pk c i =
     (str_attr i (fst (index_keys ix)) = Some pk \<and>
      (case str_attr i (snd (index_keys ix)) of
         Some s \<Rightarrow> sort_condition_holds c s
       | None \<Rightarrow> False))"

definition sort_attr :: "index_name \<Rightarrow> item \<Rightarrow> string" where
  "sort_attr ix i = (case str_attr i (snd (index_keys ix)) of Some s \<Rightarrow> s | None \<Rightarrow> [])"

definition query ::
  "table \<Rightarrow> index_name \<Rightarrow> string \<Rightarrow> sort_condition \<Rightarrow> bool \<Rightarrow> int option \<Rightarrow> py_error + item list" where
  "query t ix pk c scan_index_forward limit =
     (if (case limit of Some n \<Rightarrow> n < 1 | None \<Rightarrow> False) then Inl ParamValidationError
      else case fault t of
        Some e \<Rightarrow> Inl e
      | None \<Rightarrow>
          (let hits = sort_key (sort_attr ix) (filter (in_partition ix pk c) (stored_items t));
               ordered = (if scan_index_forward then hits else rev hits)
           in Inr (case limit of Some n \<Rightarrow> take (nat n) ordered | None \<Rightarrow> ordered)))"

text \<open>\<^verbatim>\<open>scan\<close> with a filter expression, again as one response.\<close>

definition scan :: "table \<Rightarrow> (item \<Rightarrow> bool) \<Rightarrow> py_error + item list" where
  "scan t flt =
     (case fault t of
        Some e \<Rightarrow> Inl e
      | None \<Rightarrow> Inr (filter flt (stored_items t)))"

section \<open>The ledger store (\<^verbatim>\<open>dynamodb_service.py\<close>)\<close>

text \<open>
  \<^verbatim>\<open>_generate_id()\<close> (a fresh UUID) and \<^verbatim>\<open>_get_timestamp()\<close> (the current UTC time in
  ISO format) read the environment; each operation takes their results as arguments, one
  per call in the source. A write returns the item it built and the table after the write.
\<close>

subsection \<open>Users\<close>

definition create_user ::
  "table \<Rightarrow> string \<Rightarrow> string \<Rightarrow> string \<Rightarrow> string \<Rightarrow> string \<Rightarrow> py_error + (item \<times> table)" where
  "create_user t user_id email role created_at updated_at =
     (let item = [(''PK'', PStr (''USER#'' @ user_id)),
                  (''SK'', PStr ''METADATA''),
                  (''email'', PStr email),
                  (''role'', PStr role),
                  (''created_at'', PStr created_at),
                  (''updated_at'', PStr updated_at)]
      in case put_item t item of Inl e \<Rightarrow> Inl e | Inr t' \<Rightarrow> Inr (item, t'))"

definition get_user :: "table \<Rightarrow> string \<Rightarrow> py_error + item option" where
  "get_user t user_id = get_item t (''USER#'' @ user_id) ''METADATA''"

subsection \<open>Contracts\<close>

text \<open>
  \<^verbatim>\<open>platform_fee_percent\<close> and \<^verbatim>\<open>deployment_fee\<close> go into the item as the caller passed
  them (the annotation says \<^verbatim>\<open>float\<close>, Python does not enforce it), so they are
  arbitrary values here.
\<close>

definition create_contract ::
  "table \<Rightarrow> string \<Rightarrow> string \<Rightarrow> string \<Rightarrow> string \<Rightarrow> string \<Rightarrow> int \<Rightarrow> int \<Rightarrow> py_value \<Rightarrow> py_value
     \<Rightarrow> string \<Rightarrow> string \<Rightarrow> py_error + (item \<times> table)" where
  "create_contract t user_id athlete_wallet sponsor_wallet contract_address abi
       appearances_required payment_amount platform_fee_percent deployment_fee
       contract_id created_at =
     (let item = [(''PK'', PStr (''CONTRACT#'' @ contract_id)),
                  (''SK'', PStr ''METADATA''),
                  (''user_id'', PStr user_id),
                  (''athlete_wallet'', PStr athlete_wallet),
                  (''sponsor_wallet'', PStr sponsor_wallet),
                  (''address'', PStr contract_address),
                  (''abi'', PStr abi),
                  (''appearances_required'', PInt appearances_required),
                  (''payment_amount'', PInt payment_amount),
                  (''platform_fee_percent'', platform_fee_percent),
                  (''deployment_fee'', deployment_fee),
                  (''created_at'', PStr created_at),
                  (''updated_at'', PStr created_at),
                  (''status'', PStr ''active''),
                  (''GSI1PK'', PStr (''WALLET#'' @ athlete_wallet)),
                  (''GSI1SK'', PStr (''CONTRACT#'' @ created_at)),
                  (''GSI2PK'', PStr ''CONTRACT''),
                  (''GSI2SK'', PStr created_at)]
      in case put_item t item of Inl e \<Rightarrow> Inl e | Inr t' \<Rightarrow> Inr (item, t'))"

definition get_contract :: "table \<Rightarrow> string \<Rightarrow> py_error + item option" where
  "get_contract t contract_id = get_item t (''CONTRACT#'' @ contract_id) ''METADATA''"

definition get_user_contracts :: "table \<Rightarrow> string \<Rightarrow> py_error + item list" where
  "get_user_contracts t user_id =
     query t Primary (''USER#'' @ user_id) (BeginsWith ''CONTRACT'') True None"

subsection \<open>Transactions\<close>

definition log_transaction ::
  "table \<Rightarrow> string \<Rightarrow> string \<Rightarrow> string \<Rightarrow> int \<Rightarrow> string \<Rightarrow> string \<Rightarrow> string
     \<Rightarrow> py_error + (item \<times> table)" where
  "log_transaction t contract_id tx_hash tx_type amount recipient_wallet tx_id created_at =
     (let item = [(''PK'', PStr (''CONTRACT#'' @ contract_id)),
                  (''SK'', PStr (''TX#'' @ tx_id)),
                  (''tx_hash'', PStr tx_hash),
                  (''type'', PStr tx_type),
                  (''amount'', PInt amount),
                  (''recipient_wallet'', PStr recipient_wallet),
                  (''created_at'', PStr created_at),
                  (''GSI1PK'', PStr (''WALLET#'' @ recipient_wallet)),
                  (''GSI1SK'', PStr (''TX#'' @ created_at)),
                  (''GSI2PK'', PStr ''TX''),
                  (''GSI2SK'', PStr created_at)]
      in case put_item t item of Inl e \<Rightarrow> Inl e | Inr t' \<Rightarrow> Inr (item, t'))"

definition get_contract_transactions :: "table \<Rightarrow> string \<Rightarrow> py_error + item list" where
  "get_contract_transactions t contract_id =
     query t Primary (''CONTRACT#'' @ contract_id) (BeginsWith ''TX#'') True None"

definition get_wallet_transactions :: "table \<Rightarrow> string \<Rightarrow> int \<Rightarrow> py_error + item list" where
  "get_wallet_transactions t wallet_address limit =
     query t GSI1 (''WALLET#'' @ wallet_address) (BeginsWith ''TX#'') False (Some limit)"

subsection \<open>Fee records\<close>

text \<open>\<^verbatim>\<open>Decimal(str(fee_usd))\<close> is the amount as a \<^verbatim>\<open>Decimal\<close>.\<close>

definition record_deployment_fee ::
  "table \<Rightarrow> string \<Rightarrow> string \<Rightarrow> string \<Rightarrow> rat \<Rightarrow> string \<Rightarrow> string \<Rightarrow> py_error + (item \<times> table)" where
  "record_deployment_fee t user_id user_type contract_type fee_usd fee_id created_at =
     (let item = [(''PK'', PStr (''FEE#'' @ fee_id)),
                  (''SK'', PStr ''DEPLOYMENT''),
                  (''user_id'', PStr user_id),
                  (''user_type'', PStr user_type),
                  (''contract_type'', PStr contract_type),
                  (''fee_usd'', PDecimal fee_usd),
                  (''status'', PStr ''completed''),
                  (''created_at'', PStr created_at),
                  (''GSI1PK'', PStr (''USER#'' @ user_id)),
                  (''GSI1SK'', PStr (''FEE#'' @ created_at)),
                  (''GSI2PK'', PStr ''FEE''),
                  (''GSI2SK'', PStr created_at)]
      in case put_item t item of Inl e \<Rightarrow> Inl e | Inr t' \<Rightarrow> Inr (item, t'))"

text \<open>
  \<^verbatim>\<open>record_subscription_fee\<close> reads the clock a second time for the end of the billing
  period: \<open>now_plus_days n\<close> stands for
  \<^verbatim>\<open>(datetime.utcnow() + timedelta(days=n)).isoformat()\<close>.
\<close>

definition record_subscription_fee ::
  "table \<Rightarrow> string \<Rightarrow> string \<Rightarrow> string \<Rightarrow> rat \<Rightarrow> string \<Rightarrow> string \<Rightarrow> (nat \<Rightarrow> string)
     \<Rightarrow> py_error + (item \<times> table)" where
  "record_subscription_fee t user_id user_type plan_name fee_usd sub_id created_at now_plus_days =
     (let end_date = (if plan_name = ''quarterly'' then now_plus_days 90
                      else if plan_name = ''annual'' then now_plus_days 365
                      else now_plus_days 30);
          item = [(''PK'', PStr (''USER#'' @ user_id)),
                  (''SK'', PStr (''SUB#'' @ sub_id)),
                  (''plan'', PStr plan_name),
                  (''fee_usd'', PDecimal fee_usd),
                  (''start_date'', PStr created_at),
                  (''end_date'', PStr end_date),
                  (''status'', PStr ''active''),
                  (''created_at'', PStr created_at),
                  (''GSI2PK'', PStr ''SUB''),
                  (''GSI2SK'', PStr created_at)]
      in case put_item t item of Inl e \<Rightarrow> Inl e | Inr t' \<Rightarrow> Inr (item, t'))"

definition record_premium_fee ::
  "table \<Rightarrow> string \<Rightarrow> string \<Rightarrow> string \<Rightarrow> rat \<Rightarrow> string \<Rightarrow> string \<Rightarrow> py_error + (item \<times> table)" where
  "record_premium_fee t user_id user_type feature_name fee_usd feature_id created_at =
     (let item = [(''PK'', PStr (''USER#'' @ user_id)),
                  (''SK'', PStr (''PREMIUM#'' @ feature_id)),
                  (''feature_name'', PStr feature_name),
                  (''fee_usd'', PDecimal fee_usd),
                  (''status'', PStr ''active''),
                  (''created_at'', PStr created_at),
                  (''GSI1PK'', PStr (''USER#'' @ user_id)),
                  (''GSI1SK'', PStr (''PREMIUM#'' @ created_at)),
                  (''GSI2PK'', PStr ''PREMIUM''),
                  (''GSI2SK'', PStr created_at)]
      in case put_item t item of Inl e \<Rightarrow> Inl e | Inr t' \<Rightarrow> Inr (item, t'))"

subsection \<open>Analytics and reporting\<close>

text \<open>
  The dictionary \<^verbatim>\<open>analytics\<close>: \<^verbatim>\<open>by_deal_size\<close> and \<^verbatim>\<open>top_users\<close> stay the empty
  lists they start as; \<^verbatim>\<open>overall\<close> is the empty dictionary (\<open>None\<close>) until the
  \<^verbatim>\<open>try\<close> block assigns the three figures.
\<close>

record overall_figures =
  total_deals :: int
  total_revenue :: rat
  avg_fee :: rat

record analytics =
  by_deal_size :: "item list"
  overall :: "overall_figures option"
  top_users :: "item list"

text \<open>
  \<^verbatim>\<open>float(item['fee_usd'])\<close>. On a string Python parses a numeral; the parser is the
  argument \<open>float_of_str\<close>, which answers \<open>None\<close> where Python raises \<^verbatim>\<open>ValueError\<close>.
\<close>

fun py_float :: "(string \<Rightarrow> rat option) \<Rightarrow> py_value \<Rightarrow> py_error + rat" where
  "py_float float_of_str (PStr s) =
     (case float_of_str s of Some x \<Rightarrow> Inr x | None \<Rightarrow> Inl ValueError)"
| "py_float float_of_str (PInt n) = Inr (of_int n)"
| "py_float float_of_str (PFloat x) = Inr x"
| "py_float float_of_str (PDecimal x) = Inr x"

text \<open>
  The \<^verbatim>\<open>for\<close> loop over the scanned items, with its two accumulators. The sum is
  exact here, where the source adds floats.
\<close>

fun sum_fees ::
  "(string \<Rightarrow> rat option) \<Rightarrow> item list \<Rightarrow> rat \<Rightarrow> int \<Rightarrow> py_error + (rat \<times> int)" where
  "sum_fees float_of_str [] total_fees fee_count = Inr (total_fees, fee_count)"
| "sum_fees float_of_str (i # rest) total_fees fee_count =
     (case map_of i ''fee_usd'' of
        None \<Rightarrow> sum_fees float_of_str rest total_fees fee_count
      | Some v \<Rightarrow>
          (case py_float float_of_str v of
             Inl e \<Rightarrow> Inl e
           | Inr x \<Rightarrow> sum_fees float_of_str rest (total_fees + x) (fee_count + 1)))"

definition fee_related :: "item \<Rightarrow> bool" where
  "fee_related i =
     ((case str_attr i ''PK'' of Some s \<Rightarrow> prefix ''FEE#'' s | None \<Rightarrow> False) \<or>
      map_of i ''GSI2PK'' = Some (PStr ''SUB'') \<or>
      map_of i ''GSI2PK'' = Some (PStr ''PREMIUM''))"

text \<open>The body of the \<^verbatim>\<open>try\<close> block: the value of \<^verbatim>\<open>analytics['overall']\<close> or the exception.\<close>

definition overall_of_scan :: "(string \<Rightarrow> rat option) \<Rightarrow> table \<Rightarrow> py_error + overall_figures" where
  "overall_of_scan float_of_str t =
     (case scan t fee_related of
        Inl e \<Rightarrow> Inl e
      | Inr items \<Rightarrow>
          (case sum_fees float_of_str items 0 0 of
             Inl e \<Rightarrow> Inl e
           | Inr (total_fees, fee_count) \<Rightarrow>
               Inr \<lparr> total_deals = fee_count,
                     total_revenue = py_round total_fees 2,
                     avg_fee = (if fee_count > 0
                                then py_round (total_fees / of_int fee_count) 2 else 0) \<rparr>))"

text \<open>
  \<^verbatim>\<open>except Exception as e\<close> logs the exception and falls through to
  \<^verbatim>\<open>return analytics\<close>.
\<close>

definition get_fee_analytics :: "(string \<Rightarrow> rat option) \<Rightarrow> table \<Rightarrow> py_error + analytics" where
  "get_fee_analytics float_of_str t =
     (let analytics = \<lparr> by_deal_size = [], overall = None, top_users = [] \<rparr>
      in case overall_of_scan float_of_str t of
           Inl e \<Rightarrow> Inr analytics
         | Inr figures \<Rightarrow> Inr (analytics\<lparr>overall := Some figures\<rparr>))"

definition get_transactions_by_date_range ::
  "table \<Rightarrow> string \<Rightarrow> string \<Rightarrow> string \<Rightarrow> py_error + item list" where
  "get_transactions_by_date_range t start_date end_date entity_type =
     query t GSI2 entity_type (Between start_date end_date) True None"

text \<open>
  \<^verbatim>\<open>get_contract_for_compliance\<close> makes two requests, one after the other, and
  nothing ties them together: \<open>t\<close> is the table as the first request finds it,
  \<open>t_later\<close> the table as the second finds it. The source stores the transactions in
  the contract dictionary under the key \<^verbatim>\<open>transactions\<close>; the model returns the
  contract and, where the source sets that key, the list beside it. An empty dictionary
  is false in Python.
\<close>

definition get_contract_for_compliance ::
  "table \<Rightarrow> table \<Rightarrow> string \<Rightarrow> py_error + (item \<times> item list option) option" where
  "get_contract_for_compliance t t_later contract_id =
     (case get_contract t contract_id of
        Inl e \<Rightarrow> Inl e
      | Inr None \<Rightarrow> Inr None
      | Inr (Some contract) \<Rightarrow>
          if contract \<noteq> [] then
            (case get_contract_transactions t_later contract_id of
               Inl e \<Rightarrow> Inl e
             | Inr transactions \<Rightarrow> Inr (Some (contract, Some transactions)))
          else Inr (Some (contract, None)))"

subsection \<open>How a fee record refers to its user\<close>

text \<open>
  Two ways in which a stored item can belong to a user: it lies in the user's partition
  of the table (\<^verbatim>\<open>PK = USER#<id>\<close>), or it carries the key attributes of the first
  secondary index with the user as partition (\<^verbatim>\<open>GSI1PK = USER#<id>\<close> and a
  \<^verbatim>\<open>GSI1SK\<close>).
\<close>

definition keyed_under_user :: "string \<Rightarrow> item \<Rightarrow> bool" where
  "keyed_under_user user_id i = (str_attr i ''PK'' = Some (''USER#'' @ user_id))"

definition indexed_by_user :: "string \<Rightarrow> item \<Rightarrow> bool" where
  "indexed_by_user user_id i =
     (str_attr i ''GSI1PK'' = Some (''USER#'' @ user_id) \<and> str_attr i ''GSI1SK'' \<noteq> None)"

section \<open>Properties of the fee calculator\<close>

lemma calculate_deal_fees_zero: "calculate_deal_fees fs 0 = Inl ZeroDivisionError"
  by (simp add: calculate_deal_fees_def)

lemma calculate_deal_fees_nonzero:
  "d \<noteq> 0 \<Longrightarrow> \<exists>b. calculate_deal_fees fs d = Inr b \<and> deal_value_usd b = d"
  by (simp add: calculate_deal_fees_def Let_def split: prod.splits)

lemma default_fields:
  "transaction_fee_percent default_fee_structure = 4"
  "deployment_fee_usd default_fee_structure = 25 / 2"
  "subscription_fee_monthly_usd default_fee_structure = 15"
  "max_effective_fee_percent default_fee_structure = 11"
  by (simp_all add: default_fee_structure_def)

lemma effective_percent_default:
  assumes "d \<noteq> 0"
  shows "((d * (4 / 100) + 25 / 2 + 15 + 0) / d) * 100 = 4 + 2750 / (d::rat)"
  using assms by (simp add: field_simps)





text \<open>
  Where the adjustment falls short: a positive deal below 2750/7 is over the cap before
  the adjustment and gets the 3 percent tier, after which the percentage is \<open>3 + 2750 / d\<close>;
  below 343.75 that is still more than 11.
\<close>

lemma effective_percent_after_discount:
  assumes "d \<noteq> 0"
  shows "((d * (3 / 100) + 25 / 2 + 15 + 0) / d) * 100 = 3 + 2750 / (d::rat)"
  using assms by (simp add: field_simps)

lemma cap_adjustment_small_deal:
  assumes "0 < d" and "d < 2750 / 7"
  shows "cap_adjustment default_fee_structure d (d * (4 / 100)) (25 / 2) 15 0
           (d * (4 / 100) + 25 / 2 + 15 + 0)
         = (d * (3 / 100), d * (3 / 100) + 25 / 2 + 15 + 0, 3 + 2750 / d)"
proof -
  have e: "((d * (4 / 100) + 25 / 2 + 15 + 0) / d) * 100 = 4 + 2750 / d"
    by (rule effective_percent_default) (use assms in simp)
  have e': "((d * (3 / 100) + 25 / 2 + 15 + 0) / d) * 100 = 3 + 2750 / d"
    by (rule effective_percent_after_discount) (use assms in simp)
  have "7 < 2750 / d"
    using assms by (simp add: field_simps)
  then have over: "4 + 2750 / d > 11"
    by linarith
  have small: "d < 1000"
    using assms by linarith
  have m: "min (d * (4 / 100)) (d * (3 / 100)) = d * (3 / 100)"
    using assms by (simp add: min_def)
  show ?thesis
    unfolding cap_adjustment_def Let_def default_fields e
    by (simp only: over small if_True m e')
qed

lemma cap_still_exceeded:
  assumes "0 < d" and "d < 1375 / 4"
  shows "cap_adjustment default_fee_structure d (d * (4 / 100)) (25 / 2) 15 0
           (d * (4 / 100) + 25 / 2 + 15 + 0)
         = (d * (3 / 100), d * (3 / 100) + 25 / 2 + 15 + 0, 3 + 2750 / d) \<and>
         max_effective_fee_percent default_fee_structure < 3 + 2750 / d"
proof
  have "d < 2750 / 7"
    using assms by linarith
  with assms(1) show "cap_adjustment default_fee_structure d (d * (4 / 100)) (25 / 2) 15 0
           (d * (4 / 100) + 25 / 2 + 15 + 0)
         = (d * (3 / 100), d * (3 / 100) + 25 / 2 + 15 + 0, 3 + 2750 / d)"
    by (rule cap_adjustment_small_deal)
next
  have "8 < 2750 / d"
    using assms by (simp add: field_simps)
  then show "max_effective_fee_percent default_fee_structure < 3 + 2750 / d"
    unfolding default_fields by linarith
qed

text \<open>From 343.75 upward the percentage after the adjustment is within the cap.\<close>

lemma cap_kept_from_343_75:
  assumes "1375 / 4 \<le> d"
  shows "snd (snd (cap_adjustment default_fee_structure d (d * (4 / 100)) (25 / 2) 15 0
           (d * (4 / 100) + 25 / 2 + 15 + 0))) \<le> max_effective_fee_percent default_fee_structure"
proof (cases "d < 2750 / 7")
  case True
  have pos: "0 < d"
    using assms by linarith
  have "2750 / d \<le> 8"
    using assms pos by (simp add: field_simps)
  then show ?thesis
    unfolding cap_adjustment_small_deal [OF pos True] default_fields by simp
next
  case False
  have pos: "0 < d"
    using assms by linarith
  have e: "((d * (4 / 100) + 25 / 2 + 15 + 0) / d) * 100 = 4 + 2750 / d"
    by (rule effective_percent_default) (use pos in simp)
  have "2750 / d \<le> 7"
    using False pos by (simp add: field_simps)
  then have le: "\<not> 4 + 2750 / d > 11"
    by linarith
  show ?thesis
    unfolding cap_adjustment_def Let_def default_fields e
    using le by simp
qed

text \<open>
  Claim C2. The effective percentage that the calculator returns should stay within the
  cap of 11 percent for deals below 2000. At the deal value 200 it does not: the 3 percent tier is
  applied, and the breakdown still reports 16.8 percent.
\<close>

theorem calculate_deal_fees_200_over_cap:
  "calculate_deal_fees default_fee_structure 200 =
     Inr \<lparr> deal_value_usd = 200, transaction_fee_usd = 6, out_deployment_fee_usd = 25 / 2,
           out_subscription_fee_usd = 15, premium_fee_usd = 0,
           total_effective_fee_usd = 67 / 2, effective_fee_percentage = 84 / 5,
           vs_nil_platforms_undercut = - (9 / 5), retention_score = ''Medium'' \<rparr> \<and>
   max_effective_fee_percent default_fee_structure < 84 / 5"
  by code_simp

text \<open>
  Claim C3. With the default structure the deal value 100 gives a transaction fee of 4.00
  and a total of 31.50 before the adjustment; the tier below 1000 lowers the
  transaction fee to 3.00, and the breakdown returned has transaction fee 3.00, total fee
  30.50 and effective percentage 30.5, above the cap.
\<close>

theorem calculate_deal_fees_100:
  "100 * (transaction_fee_percent default_fee_structure / 100) = 4 \<and>
   cap_adjustment default_fee_structure 100 4 (25 / 2) 15 0 (63 / 2) = (3, 61 / 2, 61 / 2) \<and>
   calculate_deal_fees default_fee_structure 100 =
     Inr \<lparr> deal_value_usd = 100, transaction_fee_usd = 3, out_deployment_fee_usd = 25 / 2,
           out_subscription_fee_usd = 15, premium_fee_usd = 0,
           total_effective_fee_usd = 61 / 2, effective_fee_percentage = 61 / 2,
           vs_nil_platforms_undercut = - (31 / 2), retention_score = ''Medium'' \<rparr>"
  by code_simp

text \<open>
  Claim C6. Under the default structure \<^verbatim>\<open>validate_premium_feature_fee\<close> accepts a fee
  exactly when it lies between 5.00 and 10.00, and it accepts both bounds.
\<close>

theorem validate_premium_feature_fee_default:
  "validate_premium_feature_fee default_fee_structure fee_usd = (5 \<le> fee_usd \<and> fee_usd \<le> 10) \<and>
   validate_premium_feature_fee default_fee_structure 5 \<and>
   validate_premium_feature_fee default_fee_structure 10"
  by (simp add: validate_premium_feature_fee_def default_fee_structure_def)

section \<open>Properties of the table\<close>

subsection \<open>Numbers that the store accepts\<close>

lemma strip_zeros_le: "strip_zeros m \<le> m"
proof (induction m rule: strip_zeros.induct)
  case (1 m)
  show ?case
  proof (cases "m \<noteq> 0 \<and> m mod 10 = 0")
    case True
    then have "strip_zeros m = strip_zeros (m div 10)"
      by (subst strip_zeros.simps) simp
    also have "\<dots> \<le> m div 10"
      using True 1 by simp
    also have "\<dots> \<le> m"
      by simp
    finally show ?thesis .
  next
    case False
    then show ?thesis
      by (subst strip_zeros.simps) auto
  qed
qed

lemma strip_zeros_times_10: "0 < m \<Longrightarrow> strip_zeros (m * 10) = strip_zeros m"
  by (subst strip_zeros.simps) simp

lemma strip_zeros_times_power: "0 < m \<Longrightarrow> strip_zeros (m * 10 ^ k) = strip_zeros m"
proof (induction k)
  case 0
  then show ?case by simp
next
  case (Suc k)
  have "m * 10 ^ Suc k = (m * 10 ^ k) * 10"
    by simp
  then have "strip_zeros (m * 10 ^ Suc k) = strip_zeros ((m * 10 ^ k) * 10)"
    by (rule arg_cong)
  also have "\<dots> = strip_zeros (m * 10 ^ k)"
    using Suc.prems by (intro strip_zeros_times_10) simp
  finally show ?case
    using Suc by simp
qed


lemma scaled_decimal:
  assumes "k \<le> n"
  shows "(of_nat c / 10 ^ k :: rat) * 10 ^ n = of_nat (c * 10 ^ (n - k))"
proof -
  have "(10::rat) ^ n = 10 ^ k * 10 ^ (n - k)"
    using assms by (simp flip: power_add)
  then show ?thesis
    by simp
qed

lemma decimal_below_power:
  assumes "c < 10 ^ p" and "p \<le> q"
  shows "\<bar>of_nat c / 10 ^ k :: rat\<bar> < 10 ^ q"
proof -
  have "of_nat c < (10::rat) ^ p"
    using assms(1) by (metis of_nat_less_iff of_nat_numeral of_nat_power)
  also have "\<dots> \<le> 10 ^ q"
    using assms(2) by (intro power_increasing) simp_all
  also have "\<dots> \<le> 10 ^ q * 10 ^ k"
    by simp
  finally show ?thesis
    by (simp add: field_simps)
qed

lemma floor_of_signed_nat:
  assumes "y = of_nat m \<or> y = - of_nat m"
  shows "of_int \<lfloor>y :: rat\<rfloor> = y \<and> nat \<bar>\<lfloor>y\<rfloor>\<bar> = m"
  using assms
proof
  assume "y = of_nat m"
  then have "y = of_int (int m)"
    by simp
  then have "\<lfloor>y\<rfloor> = int m"
    by (simp only: floor_of_int)
  with \<open>y = of_int (int m)\<close> show ?thesis
    by simp
next
  assume "y = - of_nat m"
  then have y: "y = of_int (- int m)"
    by simp
  then have "\<lfloor>y\<rfloor> = - int m"
    by (simp only: floor_of_int)
  with y show ?thesis
    by simp
qed

lemma decimal_context_accepts_of_nat:
  assumes "\<bar>x\<bar> < 10 ^ 127" and "x * 10 ^ 165 = of_nat m \<or> x * 10 ^ 165 = - of_nat m"
    and "strip_zeros m < 10 ^ 38"
  shows "decimal_context_accepts x"
  unfolding decimal_context_accepts_def
  using floor_of_signed_nat [OF assms(2)] assms(1,3) by metis

lemma decimal_context_accepts_decimal:
  assumes "0 < c" and "c < 10 ^ 38" and "k \<le> 165"
  shows "decimal_context_accepts (of_nat c / 10 ^ k)"
    and "decimal_context_accepts (- (of_nat c / 10 ^ k))"
proof -
  let ?x = "of_nat c / 10 ^ k :: rat"
  have small: "\<bar>?x\<bar> < 10 ^ 127"
    using assms(2) by (rule decimal_below_power) simp
  have scaled: "?x * 10 ^ 165 = of_nat (c * 10 ^ (165 - k))"
    using assms(3) by (rule scaled_decimal)
  have sz: "strip_zeros (c * 10 ^ (165 - k)) < 10 ^ 38"
    using strip_zeros_times_power [OF assms(1)] strip_zeros_le [of c] assms(2) by simp
  show "decimal_context_accepts ?x"
    using small _ sz by (rule decimal_context_accepts_of_nat) (use scaled in blast)
  have small': "\<bar>- ?x\<bar> < 10 ^ 127"
    using small by simp
  have "(- ?x) * 10 ^ 165 = - of_nat (c * 10 ^ (165 - k))"
    using scaled by (metis mult_minus_left)
  then show "decimal_context_accepts (- ?x)"
    using small' _ sz by (intro decimal_context_accepts_of_nat) blast+
qed


lemma dynamodb_number_12_5: "dynamodb_number (25 / 2)"
proof -
  have "decimal_context_accepts (of_nat 125 / 10 ^ 1)"
    by (rule decimal_context_accepts_decimal) simp_all
  then show ?thesis
    by (simp add: dynamodb_number_def in_number_range_def)
qed

lemma decimal_context_rejects_1e127: "\<not> decimal_context_accepts (10 ^ 127)"
  by (simp add: decimal_context_accepts_def)

lemma in_number_range_of_int:
  assumes "\<bar>n\<bar> < 10 ^ 38"
  shows "in_number_range (of_int n)"
proof (cases "n = 0")
  case True
  then show ?thesis
    by (simp add: in_number_range_def)
next
  case False
  then have "1 \<le> \<bar>n\<bar>"
    by linarith
  then have "(1::rat) \<le> \<bar>of_int n\<bar>"
    by (metis of_int_1 of_int_abs of_int_le_iff)
  moreover have "(1::rat) / 10 ^ 130 \<le> 1"
    by simp
  moreover have "\<bar>of_int n :: rat\<bar> < 10 ^ 38"
    using assms by (metis of_int_abs of_int_less_iff of_int_numeral of_int_power)
  moreover have "(10::rat) ^ 38 \<le> 10 ^ 126"
    by (rule power_increasing) simp_all
  ultimately have "(1::rat) / 10 ^ 130 \<le> \<bar>of_int n\<bar> \<and> \<bar>of_int n :: rat\<bar> < 10 ^ 126"
    by linarith
  then show ?thesis
    unfolding in_number_range_def by blast
qed

subsection \<open>Reading and writing items\<close>

lemma str_attr_Some: "str_attr i k = Some s \<longleftrightarrow> map_of i k = Some (PStr s)"
  by (auto simp: str_attr_def split: option.splits py_value.splits)

lemma map_of_stored_form: "map_of (stored_form i) k = map_option stored_value (map_of i k)"
  by (induction i) (auto simp: stored_form_def)

lemma stored_value_PStr: "stored_value v = PStr s \<longleftrightarrow> v = PStr s"
  by (cases v) auto

lemma str_attr_stored_form: "str_attr (stored_form i) k = str_attr i k"
proof (cases "map_of i k")
  case None
  then show ?thesis
    by (simp add: str_attr_def map_of_stored_form)
next
  case (Some v)
  then show ?thesis
    by (cases v) (simp_all add: str_attr_def map_of_stored_form)
qed

lemma put_item_Inr:
  assumes "put_item t i = Inr t'"
  shows "fault t = None" and "fault t' = None"
    and "stored_items t' =
           filter (\<lambda>j. \<not> same_key j (stored_form i)) (stored_items t) @ [stored_form i]"
  using assms by (auto simp: put_item_def split: if_splits option.splits)

lemma put_item_fault:
  assumes "fault t = Some e" and "first_serialization_error i = None"
  shows "put_item t i = Inl e"
  using assms by (simp add: put_item_def)

lemma find_snoc_only:
  assumes "\<And>x. x \<in> set xs \<Longrightarrow> \<not> P x" and "P y"
  shows "find P (xs @ [y]) = Some y"
  using assms by (induction xs) auto

lemma get_item_put_item:
  assumes "put_item t i = Inr t'"
    and "str_attr i ''PK'' = Some pk" and "str_attr i ''SK'' = Some sk"
  shows "get_item t' pk sk = Inr (Some (stored_form i))"
proof -
  let ?P = "\<lambda>j. str_attr j ''PK'' = Some pk \<and> str_attr j ''SK'' = Some sk"
  let ?old = "filter (\<lambda>j. \<not> same_key j (stored_form i)) (stored_items t)"
  have new: "?P (stored_form i)"
    using assms(2,3) by (simp add: str_attr_stored_form)
  have "\<not> ?P j" if "j \<in> set ?old" for j
  proof
    assume "?P j"
    with new have "same_key j (stored_form i)"
      by (simp add: same_key_def str_attr_Some)
    with that show False by simp
  qed
  then have "find ?P (?old @ [stored_form i]) = Some (stored_form i)"
    using new by (intro find_snoc_only) blast+
  then show ?thesis
    using put_item_Inr [OF assms(1)] by (simp add: get_item_def)
qed

lemma query_all:
  assumes "fault t = None"
  shows "query t ix pk c True None =
           Inr (sort_key (sort_attr ix) (filter (in_partition ix pk c) (stored_items t)))"
  using assms by (simp add: query_def)

lemma same_key_refl: "same_key i i"
  by (simp add: same_key_def)

lemma put_item_query:
  assumes "put_item t i = Inr t'"
  shows "\<exists>xs. query t' ix pk c True None = Inr xs \<and>
              (stored_form i \<in> set xs \<longleftrightarrow> in_partition ix pk c (stored_form i)) \<and>
              sorted (map (sort_attr ix) xs)"
proof -
  note p = put_item_Inr [OF assms]
  let ?xs = "sort_key (sort_attr ix) (filter (in_partition ix pk c) (stored_items t'))"
  have q: "query t' ix pk c True None = Inr ?xs"
    using p(2) by (rule query_all)
  have "stored_form i \<notin> set (filter (\<lambda>j. \<not> same_key j (stored_form i)) (stored_items t))"
    by (simp add: same_key_refl)
  then have m: "stored_form i \<in> set ?xs \<longleftrightarrow> in_partition ix pk c (stored_form i)"
    by (auto simp: p(3))
  have "sorted (map (sort_attr ix) ?xs)"
    by (rule sorted_sort_key)
  with q m show ?thesis by blast
qed

lemma written_is_stored:
  assumes "put_item t item = Inr t'" and "stored_form item = item"
  shows "item \<in> set (stored_items t')"
  using put_item_Inr(3) [OF assms(1)] assms(2) by simp

lemma query_fault:
  assumes "fault t = Some e"
  shows "query t ix pk c fwd None = Inl e"
  using assms by (simp add: query_def)

lemma get_item_fault:
  assumes "fault t = Some e"
  shows "get_item t pk sk = Inl e"
  using assms by (simp add: get_item_def)

section \<open>Properties of the ledger store\<close>

subsection \<open>Contracts\<close>

lemma create_contract_Inr:
  assumes "create_contract t user_id athlete_wallet sponsor_wallet contract_address abi
             appearances_required payment_amount platform_fee_percent deployment_fee
             contract_id created_at = Inr (item, t')"
  shows "put_item t item = Inr t'"
    and "str_attr item ''PK'' = Some (''CONTRACT#'' @ contract_id)"
    and "str_attr item ''SK'' = Some ''METADATA''"
    and "map_of item ''user_id'' = Some (PStr user_id)"
    and "map_of item ''athlete_wallet'' = Some (PStr athlete_wallet)"
    and "map_of item ''sponsor_wallet'' = Some (PStr sponsor_wallet)"
    and "map_of item ''address'' = Some (PStr contract_address)"
    and "map_of item ''status'' = Some (PStr ''active'')"
  using assms
  by (auto simp: create_contract_def Let_def str_attr_def split: sum.splits)

lemma create_contract_ok:
  assumes "fault t = None"
    and "serialization_error platform_fee_percent = None"
    and "serialization_error deployment_fee = None"
    and "value_in_range platform_fee_percent" and "value_in_range deployment_fee"
    and "\<bar>appearances_required\<bar> < 10 ^ 38" and "\<bar>payment_amount\<bar> < 10 ^ 38"
  shows "\<exists>item t'. create_contract t user_id athlete_wallet sponsor_wallet contract_address abi
             appearances_required payment_amount platform_fee_percent deployment_fee
             contract_id created_at = Inr (item, t')"
proof -
  have "in_number_range (of_int appearances_required)" "in_number_range (of_int payment_amount)"
    using assms(6,7) by (simp_all add: in_number_range_of_int)
  then show ?thesis
    using assms by (simp add: create_contract_def Let_def put_item_def str_attr_def)
qed

lemma example_numbers:
  "serialization_error (PInt 4) = None" "value_in_range (PInt 4)"
  "serialization_error (PInt 12) = None" "value_in_range (PInt 12)"
  "serialization_error (PDecimal (25 / 2)) = None" "value_in_range (PDecimal (25 / 2))"
  "\<bar>5 :: int\<bar> < 10 ^ 38" "\<bar>1000 :: int\<bar> < 10 ^ 38"
  using dynamodb_number_12_5 by (simp_all add: dynamodb_number_def in_number_range_def)

text \<open>
  The contract item lies in the partition \<^verbatim>\<open>CONTRACT#<id>\<close>, and so does whatever
  item the write replaces. The query of \<^verbatim>\<open>get_user_contracts\<close> reads a partition
  \<^verbatim>\<open>USER#<id>\<close>: writing a contract never changes what it returns, for any user.
\<close>

lemma create_contract_not_listed:
  assumes "create_contract t user_id athlete_wallet sponsor_wallet contract_address abi
             appearances_required payment_amount platform_fee_percent deployment_fee
             contract_id created_at = Inr (item, t')"
  shows "get_user_contracts t' u = get_user_contracts t u"
proof -
  note c = create_contract_Inr [OF assms]
  note p = put_item_Inr [OF c(1)]
  let ?P = "in_partition Primary (''USER#'' @ u) (BeginsWith ''CONTRACT'')"
  have pk: "str_attr (stored_form item) ''PK'' = Some (''CONTRACT#'' @ contract_id)"
    using c(2) by (simp add: str_attr_stored_form)
  have new: "\<not> ?P (stored_form item)"
    using pk by (simp add: in_partition_def)
  have old: "\<not> same_key j (stored_form item)" if "?P j" for j
  proof
    assume "same_key j (stored_form item)"
    then have "map_of j ''PK'' = Some (PStr (''CONTRACT#'' @ contract_id))"
      using pk by (simp add: same_key_def str_attr_Some)
    then have "str_attr j ''PK'' = Some (''CONTRACT#'' @ contract_id)"
      by (simp add: str_attr_Some)
    with that show False
      by (simp add: in_partition_def)
  qed
  have "filter ?P (stored_items t') = filter ?P (stored_items t)"
    unfolding p(3) using new old by (auto intro: filter_cong)
  then show ?thesis
    using p(1,2) by (simp add: get_user_contracts_def query_all)
qed

text \<open>
  Claim C4. A contract created for an owner should be among the contracts listed for
  that owner afterwards. On an empty table, after \<^verbatim>\<open>create_contract\<close> for the user
  \<^verbatim>\<open>u1\<close> has succeeded, \<^verbatim>\<open>get_user_contracts\<close> for \<^verbatim>\<open>u1\<close> returns the empty list.
\<close>

theorem created_contract_not_listed_for_owner:
  "(case create_contract \<lparr>stored_items = [], fault = None\<rparr>
           ''u1'' ''0xAthlete'' ''0xSponsor'' ''0xContract'' ''[]'' 5 1000 (PInt 4) (PInt 12)
           ''c1'' ''2024-01-15T10:00:00'' of
      Inl e \<Rightarrow> Inl e
    | Inr (item, t') \<Rightarrow> get_user_contracts t' ''u1'') = Inr []"
proof -
  have e: "fault \<lparr>stored_items = [], fault = None\<rparr> = None"
    by simp
  obtain item t' where c:
    "create_contract \<lparr>stored_items = [], fault = None\<rparr>
       ''u1'' ''0xAthlete'' ''0xSponsor'' ''0xContract'' ''[]'' 5 1000 (PInt 4) (PInt 12)
       ''c1'' ''2024-01-15T10:00:00'' = Inr (item, t')"
    using create_contract_ok [OF e example_numbers(1,3,2,4,7,8)] by blast
  have "get_user_contracts t' ''u1'' = get_user_contracts \<lparr>stored_items = [], fault = None\<rparr> ''u1''"
    using c by (rule create_contract_not_listed)
  also have "\<dots> = Inr []"
    by (simp add: get_user_contracts_def query_def)
  finally show ?thesis
    using c by simp
qed

text \<open>
  Claim C5. Whenever \<^verbatim>\<open>create_contract\<close> has written a contract, \<^verbatim>\<open>get_contract\<close>
  with the generated identifier, on the table the write left, returns the stored
  item, whose owner user id, athlete wallet, sponsor wallet and contract address are the
  ones passed in and whose status is \<^verbatim>\<open>active\<close>.
\<close>

theorem contract_round_trip:
  assumes "create_contract t user_id athlete_wallet sponsor_wallet contract_address abi
             appearances_required payment_amount platform_fee_percent deployment_fee
             contract_id created_at = Inr (item, t')"
  shows "\<exists>r. get_contract t' contract_id = Inr (Some r) \<and>
             r = stored_form item \<and>
             map_of r ''user_id'' = Some (PStr user_id) \<and>
             map_of r ''athlete_wallet'' = Some (PStr athlete_wallet) \<and>
             map_of r ''sponsor_wallet'' = Some (PStr sponsor_wallet) \<and>
             map_of r ''address'' = Some (PStr contract_address) \<and>
             map_of r ''status'' = Some (PStr ''active'')"
proof -
  note c = create_contract_Inr [OF assms]
  have "get_contract t' contract_id = Inr (Some (stored_form item))"
    unfolding get_contract_def by (rule get_item_put_item [OF c(1) c(2) c(3)])
  then show ?thesis
    by (simp add: map_of_stored_form c)
qed

theorem contract_round_trip_witness:
  "\<exists>item t'.
     create_contract \<lparr>stored_items = [], fault = None\<rparr>
       ''u1'' ''0xAthlete'' ''0xSponsor'' ''0xContract'' ''[]'' 5 1000 (PInt 4) (PDecimal (25 / 2))
       ''c1'' ''2024-01-15T10:00:00'' = Inr (item, t') \<and>
     (\<exists>r. get_contract t' ''c1'' = Inr (Some r) \<and>
          r = stored_form item \<and>
          map_of r ''user_id'' = Some (PStr ''u1'') \<and>
          map_of r ''athlete_wallet'' = Some (PStr ''0xAthlete'') \<and>
          map_of r ''sponsor_wallet'' = Some (PStr ''0xSponsor'') \<and>
          map_of r ''address'' = Some (PStr ''0xContract'') \<and>
          map_of r ''status'' = Some (PStr ''active''))"
proof -
  obtain item t' where h:
    "create_contract \<lparr>stored_items = [], fault = None\<rparr>
       ''u1'' ''0xAthlete'' ''0xSponsor'' ''0xContract'' ''[]'' 5 1000 (PInt 4) (PDecimal (25 / 2))
       ''c1'' ''2024-01-15T10:00:00'' = Inr (item, t')"
    using create_contract_ok [of "\<lparr>stored_items = [], fault = None\<rparr>" "PInt 4" "PDecimal (25 / 2)"
        5 1000 "''u1''" "''0xAthlete''" "''0xSponsor''" "''0xContract''" "''[]''" "''c1''"
        "''2024-01-15T10:00:00''"] example_numbers
    by auto
  show ?thesis
    using h contract_round_trip [OF h] by blast
qed

subsection \<open>Fee records\<close>

lemma record_deployment_fee_ok:
  assumes "fault t = None" and "dynamodb_number fee_usd"
  shows "\<exists>item t'. record_deployment_fee t user_id user_type contract_type fee_usd fee_id created_at
                     = Inr (item, t') \<and> put_item t item = Inr t' \<and> stored_form item = item \<and>
           str_attr item ''PK'' = Some (''FEE#'' @ fee_id) \<and>
           str_attr item ''SK'' = Some ''DEPLOYMENT'' \<and>
           map_of item ''user_id'' = Some (PStr user_id) \<and>
           map_of item ''fee_usd'' = Some (PDecimal fee_usd) \<and>
           str_attr item ''created_at'' = Some created_at \<and>
           str_attr item ''GSI1PK'' = Some (''USER#'' @ user_id) \<and>
           str_attr item ''GSI1SK'' = Some (''FEE#'' @ created_at) \<and>
           str_attr item ''GSI2PK'' = Some ''FEE'' \<and>
           str_attr item ''GSI2SK'' = Some created_at"
  using assms
  by (simp add: record_deployment_fee_def Let_def put_item_def str_attr_def stored_form_def
      dynamodb_number_def)

lemma record_subscription_fee_ok:
  assumes "fault t = None" and "dynamodb_number fee_usd"
  shows "\<exists>item t'. record_subscription_fee t user_id user_type plan_name fee_usd sub_id created_at
                       now_plus_days
                     = Inr (item, t') \<and> put_item t item = Inr t' \<and> stored_form item = item \<and>
           str_attr item ''PK'' = Some (''USER#'' @ user_id) \<and>
           str_attr item ''SK'' = Some (''SUB#'' @ sub_id) \<and>
           map_of item ''fee_usd'' = Some (PDecimal fee_usd) \<and>
           str_attr item ''created_at'' = Some created_at \<and>
           str_attr item ''GSI1PK'' = None \<and>
           str_attr item ''GSI2PK'' = Some ''SUB'' \<and>
           str_attr item ''GSI2SK'' = Some created_at"
  using assms
  by (simp add: record_subscription_fee_def Let_def put_item_def str_attr_def stored_form_def
      dynamodb_number_def)

lemma record_premium_fee_ok:
  assumes "fault t = None" and "dynamodb_number fee_usd"
  shows "\<exists>item t'. record_premium_fee t user_id user_type feature_name fee_usd feature_id created_at
                     = Inr (item, t') \<and> put_item t item = Inr t' \<and> stored_form item = item \<and>
           str_attr item ''PK'' = Some (''USER#'' @ user_id) \<and>
           str_attr item ''SK'' = Some (''PREMIUM#'' @ feature_id) \<and>
           map_of item ''fee_usd'' = Some (PDecimal fee_usd) \<and>
           str_attr item ''created_at'' = Some created_at \<and>
           str_attr item ''GSI1PK'' = Some (''USER#'' @ user_id) \<and>
           str_attr item ''GSI1SK'' = Some (''PREMIUM#'' @ created_at) \<and>
           str_attr item ''GSI2PK'' = Some ''PREMIUM'' \<and>
           str_attr item ''GSI2SK'' = Some created_at"
  using assms
  by (simp add: record_premium_fee_def Let_def put_item_def str_attr_def stored_form_def
      dynamodb_number_def)

lemma range_query_of_written:
  assumes "put_item t item = Inr t'" and "stored_form item = item"
    and "str_attr item ''GSI2PK'' = Some kind" and "str_attr item ''GSI2SK'' = Some created_at"
  shows "\<exists>xs. get_transactions_by_date_range t' t0 t1 kind = Inr xs \<and>
              (item \<in> set xs \<longleftrightarrow> t0 \<le> created_at \<and> created_at \<le> t1) \<and>
              sorted (map (sort_attr GSI2) xs)"
proof -
  have "in_partition GSI2 kind (Between t0 t1) item \<longleftrightarrow> t0 \<le> created_at \<and> created_at \<le> t1"
    using assms(3,4) by (simp add: in_partition_def)
  then show ?thesis
    using put_item_query [OF assms(1), of GSI2 kind "Between t0 t1"] assms(2)
    by (simp add: get_transactions_by_date_range_def)
qed

text \<open>
  Claim C7, as amended. Every fee record written (the store answers, and the amount is a
  number that the store admits) refers to its paying user through a key that can be
  queried. A deployment fee lies in a partition of its own,
  \<^verbatim>\<open>FEE#<fee id>\<close> with sort key \<^verbatim>\<open>DEPLOYMENT\<close>, names the user in \<^verbatim>\<open>user_id\<close>
  and carries the user-keyed attributes of the first secondary index. A subscription
  fee lies in the user's partition under \<^verbatim>\<open>SUB#<id>\<close>. A premium fee lies in the
  user's partition under \<^verbatim>\<open>PREMIUM#<id>\<close> and carries the user-keyed index
  attributes as well.
\<close>

theorem fee_records_reference_user:
  assumes "fault t = None" and "dynamodb_number fee_usd"
  shows "(\<exists>item t'. record_deployment_fee t user_id user_type contract_type fee_usd fee_id created_at
                       = Inr (item, t') \<and> item \<in> set (stored_items t') \<and>
            str_attr item ''PK'' = Some (''FEE#'' @ fee_id) \<and>
            str_attr item ''SK'' = Some ''DEPLOYMENT'' \<and>
            str_attr item ''user_id'' = Some user_id \<and>
            indexed_by_user user_id item \<and>
            str_attr item ''GSI1SK'' = Some (''FEE#'' @ created_at)) \<and>
         (\<exists>item t'. record_subscription_fee t user_id user_type plan_name fee_usd sub_id created_at
                       now_plus_days = Inr (item, t') \<and> item \<in> set (stored_items t') \<and>
            keyed_under_user user_id item \<and>
            str_attr item ''SK'' = Some (''SUB#'' @ sub_id)) \<and>
         (\<exists>item t'. record_premium_fee t user_id user_type feature_name fee_usd feature_id created_at
                       = Inr (item, t') \<and> item \<in> set (stored_items t') \<and>
            keyed_under_user user_id item \<and>
            str_attr item ''SK'' = Some (''PREMIUM#'' @ feature_id) \<and>
            indexed_by_user user_id item \<and>
            str_attr item ''GSI1SK'' = Some (''PREMIUM#'' @ created_at))"
proof (intro conjI)
  show "\<exists>item t'. record_deployment_fee t user_id user_type contract_type fee_usd fee_id created_at
                       = Inr (item, t') \<and> item \<in> set (stored_items t') \<and>
            str_attr item ''PK'' = Some (''FEE#'' @ fee_id) \<and>
            str_attr item ''SK'' = Some ''DEPLOYMENT'' \<and>
            str_attr item ''user_id'' = Some user_id \<and>
            indexed_by_user user_id item \<and>
            str_attr item ''GSI1SK'' = Some (''FEE#'' @ created_at)"
    using record_deployment_fee_ok [OF assms, of user_id user_type contract_type fee_id
        created_at]
    by (auto simp: indexed_by_user_def str_attr_Some dest: written_is_stored)
next
  show "\<exists>item t'. record_subscription_fee t user_id user_type plan_name fee_usd sub_id created_at
                       now_plus_days = Inr (item, t') \<and> item \<in> set (stored_items t') \<and>
            keyed_under_user user_id item \<and>
            str_attr item ''SK'' = Some (''SUB#'' @ sub_id)"
    using record_subscription_fee_ok [OF assms, of user_id user_type plan_name sub_id
        created_at now_plus_days]
    by (auto simp: keyed_under_user_def dest: written_is_stored)
next
  show "\<exists>item t'. record_premium_fee t user_id user_type feature_name fee_usd feature_id created_at
                       = Inr (item, t') \<and> item \<in> set (stored_items t') \<and>
            keyed_under_user user_id item \<and>
            str_attr item ''SK'' = Some (''PREMIUM#'' @ feature_id) \<and>
            indexed_by_user user_id item \<and>
            str_attr item ''GSI1SK'' = Some (''PREMIUM#'' @ created_at)"
    using record_premium_fee_ok [OF assms, of user_id user_type feature_name feature_id
        created_at]
    by (auto simp: keyed_under_user_def indexed_by_user_def dest: written_is_stored)
qed

theorem fee_records_reference_user_witness:
  "fault \<lparr>stored_items = [], fault = None\<rparr> = None \<and> dynamodb_number (25 / 2) \<and>
   (\<exists>item t'. record_deployment_fee \<lparr>stored_items = [], fault = None\<rparr> ''u1'' ''athlete''
                 ''sponsorship'' (25 / 2) ''f1'' ''2024-01-15T10:00:00'' = Inr (item, t') \<and>
      item \<in> set (stored_items t') \<and>
      str_attr item ''PK'' = Some ''FEE#f1'' \<and>
      indexed_by_user ''u1'' item) \<and>
   (\<exists>item t'. record_subscription_fee \<lparr>stored_items = [], fault = None\<rparr> ''u1'' ''athlete''
                 ''monitoring'' (25 / 2) ''s1'' ''2024-01-15T10:00:00''
                 (\<lambda>n. ''2024-02-14T10:00:00'') = Inr (item, t') \<and>
      item \<in> set (stored_items t') \<and>
      keyed_under_user ''u1'' item) \<and>
   (\<exists>item t'. record_premium_fee \<lparr>stored_items = [], fault = None\<rparr> ''u1'' ''athlete''
                 ''custom_contract'' (25 / 2) ''p1'' ''2024-01-15T10:00:00'' = Inr (item, t') \<and>
      item \<in> set (stored_items t') \<and>
      keyed_under_user ''u1'' item \<and>
      indexed_by_user ''u1'' item)"
proof -
  have h: "fault \<lparr>stored_items = [], fault = None\<rparr> = None"
    by simp
  note n = dynamodb_number_12_5
  note w = fee_records_reference_user [OF h n, of "''u1''" "''athlete''" _ _ "''2024-01-15T10:00:00''"]
  have d: "\<exists>item t'. record_deployment_fee \<lparr>stored_items = [], fault = None\<rparr> ''u1'' ''athlete''
                 ''sponsorship'' (25 / 2) ''f1'' ''2024-01-15T10:00:00'' = Inr (item, t') \<and>
      item \<in> set (stored_items t') \<and>
      str_attr item ''PK'' = Some ''FEE#f1'' \<and>
      indexed_by_user ''u1'' item"
    using w [THEN conjunct1, of "''sponsorship''" "''f1''"] by auto
  have s: "\<exists>item t'. record_subscription_fee \<lparr>stored_items = [], fault = None\<rparr> ''u1'' ''athlete''
                 ''monitoring'' (25 / 2) ''s1'' ''2024-01-15T10:00:00''
                 (\<lambda>n. ''2024-02-14T10:00:00'') = Inr (item, t') \<and>
      item \<in> set (stored_items t') \<and>
      keyed_under_user ''u1'' item"
    using w [THEN conjunct2, THEN conjunct1, of "''monitoring''" "''s1''" "\<lambda>n. ''2024-02-14T10:00:00''"]
    by auto
  have p: "\<exists>item t'. record_premium_fee \<lparr>stored_items = [], fault = None\<rparr> ''u1'' ''athlete''
                 ''custom_contract'' (25 / 2) ''p1'' ''2024-01-15T10:00:00'' = Inr (item, t') \<and>
      item \<in> set (stored_items t') \<and>
      keyed_under_user ''u1'' item \<and>
      indexed_by_user ''u1'' item"
    using w [THEN conjunct2, THEN conjunct2, of "''custom_contract''" "''p1''"] by auto
  show ?thesis
    using h n d s p by blast
qed

text \<open>
  Claim C7 as the specification states it fails for the deployment fee: the record
  written for the user \<^verbatim>\<open>u1\<close> has the partition key \<^verbatim>\<open>FEE#f1\<close>, not \<^verbatim>\<open>USER#u1\<close>.
\<close>

theorem fee_records_keyed_under_user_counterexample:
  "record_deployment_fee \<lparr>stored_items = [], fault = None\<rparr> ''u1'' ''athlete'' ''sponsorship''
       (25 / 2) ''f1'' ''2024-01-15T10:00:00'' =
     Inr ([(''PK'', PStr ''FEE#f1''), (''SK'', PStr ''DEPLOYMENT''),
           (''user_id'', PStr ''u1''), (''user_type'', PStr ''athlete''),
           (''contract_type'', PStr ''sponsorship''), (''fee_usd'', PDecimal (25 / 2)),
           (''status'', PStr ''completed''), (''created_at'', PStr ''2024-01-15T10:00:00''),
           (''GSI1PK'', PStr ''USER#u1''), (''GSI1SK'', PStr ''FEE#2024-01-15T10:00:00''),
           (''GSI2PK'', PStr ''FEE''), (''GSI2SK'', PStr ''2024-01-15T10:00:00'')],
          \<lparr>stored_items =
             [[(''PK'', PStr ''FEE#f1''), (''SK'', PStr ''DEPLOYMENT''),
               (''user_id'', PStr ''u1''), (''user_type'', PStr ''athlete''),
               (''contract_type'', PStr ''sponsorship''), (''fee_usd'', PDecimal (25 / 2)),
               (''status'', PStr ''completed''), (''created_at'', PStr ''2024-01-15T10:00:00''),
               (''GSI1PK'', PStr ''USER#u1''), (''GSI1SK'', PStr ''FEE#2024-01-15T10:00:00''),
               (''GSI2PK'', PStr ''FEE''), (''GSI2SK'', PStr ''2024-01-15T10:00:00'')]],
           fault = None\<rparr>) \<and>
   \<not> keyed_under_user ''u1''
       [(''PK'', PStr ''FEE#f1''), (''SK'', PStr ''DEPLOYMENT''),
        (''user_id'', PStr ''u1''), (''user_type'', PStr ''athlete''),
        (''contract_type'', PStr ''sponsorship''), (''fee_usd'', PDecimal (25 / 2)),
        (''status'', PStr ''completed''), (''created_at'', PStr ''2024-01-15T10:00:00''),
        (''GSI1PK'', PStr ''USER#u1''), (''GSI1SK'', PStr ''FEE#2024-01-15T10:00:00''),
        (''GSI2PK'', PStr ''FEE''), (''GSI2SK'', PStr ''2024-01-15T10:00:00'')]"
  using dynamodb_number_12_5
  by (simp add: record_deployment_fee_def Let_def put_item_def str_attr_def stored_form_def
      dynamodb_number_def keyed_under_user_def)

text \<open>
  Claim C9. A fee of any of the three kinds is recorded whenever the store answers and
  the amount is a number that the store admits. After it has been recorded with creation
  time \<open>created_at\<close>, the range query of the second secondary index for that kind's
  category (\<^verbatim>\<open>FEE\<close>, \<^verbatim>\<open>SUB\<close>, \<^verbatim>\<open>PREMIUM\<close>) and the bounds \<open>t0\<close>, \<open>t1\<close> returns
  the record exactly when \<open>t0 \<le> created_at \<le> t1\<close> (so it is included within the
  bounds and excluded when \<open>t1 < created_at\<close>), and the result is in ascending order of
  the index's sort key, which every write sets to the creation time. Times are the
  ISO strings of the source, compared as DynamoDB compares strings.
\<close>

theorem fee_range_query:
  assumes "fault t = None" and "dynamodb_number fee_usd"
  shows "(\<exists>item t' xs.
            record_deployment_fee t user_id user_type descriptor fee_usd new_id created_at
              = Inr (item, t') \<and>
            str_attr item ''created_at'' = Some created_at \<and>
            sort_attr GSI2 item = created_at \<and>
            get_transactions_by_date_range t' t0 t1 ''FEE'' = Inr xs \<and>
            (item \<in> set xs \<longleftrightarrow> t0 \<le> created_at \<and> created_at \<le> t1) \<and>
            sorted (map (sort_attr GSI2) xs)) \<and>
         (\<exists>item t' xs.
            record_subscription_fee t user_id user_type descriptor fee_usd new_id created_at
              now_plus_days = Inr (item, t') \<and>
            str_attr item ''created_at'' = Some created_at \<and>
            sort_attr GSI2 item = created_at \<and>
            get_transactions_by_date_range t' t0 t1 ''SUB'' = Inr xs \<and>
            (item \<in> set xs \<longleftrightarrow> t0 \<le> created_at \<and> created_at \<le> t1) \<and>
            sorted (map (sort_attr GSI2) xs)) \<and>
         (\<exists>item t' xs.
            record_premium_fee t user_id user_type descriptor fee_usd new_id created_at
              = Inr (item, t') \<and>
            str_attr item ''created_at'' = Some created_at \<and>
            sort_attr GSI2 item = created_at \<and>
            get_transactions_by_date_range t' t0 t1 ''PREMIUM'' = Inr xs \<and>
            (item \<in> set xs \<longleftrightarrow> t0 \<le> created_at \<and> created_at \<le> t1) \<and>
            sorted (map (sort_attr GSI2) xs))"
proof (intro conjI)
  obtain item t' where
    "record_deployment_fee t user_id user_type descriptor fee_usd new_id created_at = Inr (item, t')"
    "put_item t item = Inr t'" "stored_form item = item"
    "str_attr item ''created_at'' = Some created_at"
    "str_attr item ''GSI2PK'' = Some ''FEE''" "str_attr item ''GSI2SK'' = Some created_at"
    using record_deployment_fee_ok [OF assms] by blast
  moreover from this have "sort_attr GSI2 item = created_at"
    by (simp add: sort_attr_def)
  ultimately show "\<exists>item t' xs.
            record_deployment_fee t user_id user_type descriptor fee_usd new_id created_at
              = Inr (item, t') \<and>
            str_attr item ''created_at'' = Some created_at \<and>
            sort_attr GSI2 item = created_at \<and>
            get_transactions_by_date_range t' t0 t1 ''FEE'' = Inr xs \<and>
            (item \<in> set xs \<longleftrightarrow> t0 \<le> created_at \<and> created_at \<le> t1) \<and>
            sorted (map (sort_attr GSI2) xs)"
    using range_query_of_written [of t item t' "''FEE''" created_at t0 t1] by blast
next
  obtain item t' where
    "record_subscription_fee t user_id user_type descriptor fee_usd new_id created_at
       now_plus_days = Inr (item, t')"
    "put_item t item = Inr t'" "stored_form item = item"
    "str_attr item ''created_at'' = Some created_at"
    "str_attr item ''GSI2PK'' = Some ''SUB''" "str_attr item ''GSI2SK'' = Some created_at"
    using record_subscription_fee_ok [OF assms] by blast
  moreover from this have "sort_attr GSI2 item = created_at"
    by (simp add: sort_attr_def)
  ultimately show "\<exists>item t' xs.
            record_subscription_fee t user_id user_type descriptor fee_usd new_id created_at
              now_plus_days = Inr (item, t') \<and>
            str_attr item ''created_at'' = Some created_at \<and>
            sort_attr GSI2 item = created_at \<and>
            get_transactions_by_date_range t' t0 t1 ''SUB'' = Inr xs \<and>
            (item \<in> set xs \<longleftrightarrow> t0 \<le> created_at \<and> created_at \<le> t1) \<and>
            sorted (map (sort_attr GSI2) xs)"
    using range_query_of_written [of t item t' "''SUB''" created_at t0 t1] by blast
next
  obtain item t' where
    "record_premium_fee t user_id user_type descriptor fee_usd new_id created_at = Inr (item, t')"
    "put_item t item = Inr t'" "stored_form item = item"
    "str_attr item ''created_at'' = Some created_at"
    "str_attr item ''GSI2PK'' = Some ''PREMIUM''" "str_attr item ''GSI2SK'' = Some created_at"
    using record_premium_fee_ok [OF assms] by blast
  moreover from this have "sort_attr GSI2 item = created_at"
    by (simp add: sort_attr_def)
  ultimately show "\<exists>item t' xs.
            record_premium_fee t user_id user_type descriptor fee_usd new_id created_at
              = Inr (item, t') \<and>
            str_attr item ''created_at'' = Some created_at \<and>
            sort_attr GSI2 item = created_at \<and>
            get_transactions_by_date_range t' t0 t1 ''PREMIUM'' = Inr xs \<and>
            (item \<in> set xs \<longleftrightarrow> t0 \<le> created_at \<and> created_at \<le> t1) \<and>
            sorted (map (sort_attr GSI2) xs)"
    using range_query_of_written [of t item t' "''PREMIUM''" created_at t0 t1] by blast
qed

lemma iso_le_1: "''2024-01-01'' \<le> ''2024-01-15T10:00:00''"
  by code_simp

lemma iso_le_2: "''2024-01-15T10:00:00'' \<le> ''2024-02-01''"
  by code_simp

lemma iso_le_3: "\<not> ''2024-01-15T10:00:00'' \<le> ''2024-01-10''"
  by code_simp

theorem fee_range_query_witness:
  "fault \<lparr>stored_items = [], fault = None\<rparr> = None \<and> dynamodb_number (25 / 2) \<and>
   (\<exists>item t' xs.
      record_deployment_fee \<lparr>stored_items = [], fault = None\<rparr> ''u1'' ''athlete''
        ''sponsorship'' (25 / 2) ''f1'' ''2024-01-15T10:00:00'' = Inr (item, t') \<and>
      get_transactions_by_date_range t' ''2024-01-01'' ''2024-02-01'' ''FEE'' = Inr xs \<and>
      item \<in> set xs \<and> sorted (map (sort_attr GSI2) xs)) \<and>
   (\<exists>item t' xs.
      record_deployment_fee \<lparr>stored_items = [], fault = None\<rparr> ''u1'' ''athlete''
        ''sponsorship'' (25 / 2) ''f1'' ''2024-01-15T10:00:00'' = Inr (item, t') \<and>
      get_transactions_by_date_range t' ''2024-01-01'' ''2024-01-10'' ''FEE'' = Inr xs \<and>
      item \<notin> set xs)"
proof -
  have h: "fault \<lparr>stored_items = [], fault = None\<rparr> = None"
    by simp
  have a: "\<exists>item t' xs.
      record_deployment_fee \<lparr>stored_items = [], fault = None\<rparr> ''u1'' ''athlete''
        ''sponsorship'' (25 / 2) ''f1'' ''2024-01-15T10:00:00'' = Inr (item, t') \<and>
      get_transactions_by_date_range t' ''2024-01-01'' ''2024-02-01'' ''FEE'' = Inr xs \<and>
      item \<in> set xs \<and> sorted (map (sort_attr GSI2) xs)"
    using fee_range_query [OF h dynamodb_number_12_5, THEN conjunct1, of "''u1''" "''athlete''"
        "''sponsorship''" "''f1''" "''2024-01-15T10:00:00''" "''2024-01-01''" "''2024-02-01''"] iso_le_1 iso_le_2
    by auto
  have b: "\<exists>item t' xs.
      record_deployment_fee \<lparr>stored_items = [], fault = None\<rparr> ''u1'' ''athlete''
        ''sponsorship'' (25 / 2) ''f1'' ''2024-01-15T10:00:00'' = Inr (item, t') \<and>
      get_transactions_by_date_range t' ''2024-01-01'' ''2024-01-10'' ''FEE'' = Inr xs \<and>
      item \<notin> set xs"
    using fee_range_query [OF h dynamodb_number_12_5, THEN conjunct1, of "''u1''" "''athlete''"
        "''sponsorship''" "''f1''" "''2024-01-15T10:00:00''" "''2024-01-01''" "''2024-01-10''"] iso_le_3
    by auto
  show ?thesis
    using h dynamodb_number_12_5 a b by blast
qed



text \<open>
  Claim C10 as the specification states it fails: the amount \<open>10 ^ 127\<close> lies outside
  the premium bounds, the store answers, and \<^verbatim>\<open>record_premium_fee\<close> raises the decimal
  context's exception before any request, so nothing is written.
\<close>

theorem premium_fee_every_amount_counterexample:
  "\<not> validate_premium_feature_fee default_fee_structure (10 ^ 127) \<and>
   record_premium_fee \<lparr>stored_items = [], fault = None\<rparr> ''u1'' ''athlete''
     ''custom_contract'' (10 ^ 127) ''p1'' ''2024-01-15T10:00:00'' = Inl DecimalException"
  using decimal_context_rejects_1e127
  by (simp add: validate_premium_feature_fee_def default_fee_structure_def
      record_premium_fee_def Let_def put_item_def)

subsection \<open>Failures of the store\<close>

lemma create_user_fault:
  "fault t = Some e \<Longrightarrow> create_user t user_id email role created_at updated_at = Inl e"
  by (simp add: create_user_def Let_def put_item_def)

lemma create_contract_fault:
  "fault t = Some e \<Longrightarrow> serialization_error platform_fee_percent = None \<Longrightarrow>
   serialization_error deployment_fee = None \<Longrightarrow>
   serialization_error (PInt appearances_required) = None \<Longrightarrow>
   serialization_error (PInt payment_amount) = None \<Longrightarrow>
   create_contract t user_id athlete_wallet sponsor_wallet contract_address abi
     appearances_required payment_amount platform_fee_percent deployment_fee
     contract_id created_at = Inl e"
  by (simp add: create_contract_def Let_def put_item_def)

lemma log_transaction_fault:
  "fault t = Some e \<Longrightarrow> serialization_error (PInt amount) = None \<Longrightarrow>
   log_transaction t contract_id tx_hash tx_type amount recipient_wallet tx_id created_at = Inl e"
  by (simp add: log_transaction_def Let_def put_item_def)

lemma get_wallet_transactions_fault:
  "fault t = Some e \<Longrightarrow> 1 \<le> limit \<Longrightarrow> get_wallet_transactions t wallet_address limit = Inl e"
  by (simp add: get_wallet_transactions_def query_def)

lemma record_deployment_fee_fault:
  "fault t = Some e \<Longrightarrow> serialization_error (PDecimal fee_usd) = None \<Longrightarrow>
   record_deployment_fee t user_id user_type contract_type fee_usd fee_id created_at = Inl e"
  by (simp add: record_deployment_fee_def Let_def put_item_def)

lemma record_subscription_fee_fault:
  "fault t = Some e \<Longrightarrow> serialization_error (PDecimal fee_usd) = None \<Longrightarrow>
   record_subscription_fee t user_id user_type plan_name fee_usd sub_id created_at now_plus_days
     = Inl e"
  by (simp add: record_subscription_fee_def Let_def put_item_def)

lemma record_premium_fee_fault:
  "fault t = Some e \<Longrightarrow> serialization_error (PDecimal fee_usd) = None \<Longrightarrow>
   record_premium_fee t user_id user_type feature_name fee_usd feature_id created_at = Inl e"
  by (simp add: record_premium_fee_def Let_def put_item_def)

text \<open>
  \<^verbatim>\<open>get_contract_for_compliance\<close> fails when its first request fails, and when the
  first request has found a contract and the second request fails.
\<close>

lemma get_contract_for_compliance_first_fault:
  "fault t = Some e \<Longrightarrow> get_contract_for_compliance t t_later contract_id = Inl e"
  by (simp add: get_contract_for_compliance_def get_contract_def get_item_fault)

lemma get_contract_for_compliance_second_fault:
  "get_contract t_before contract_id = Inr (Some contract) \<Longrightarrow> contract \<noteq> [] \<Longrightarrow>
   fault t = Some e \<Longrightarrow> get_contract_for_compliance t_before t contract_id = Inl e"
  by (simp add: get_contract_for_compliance_def get_contract_transactions_def query_fault)

text \<open>
  The scan is inside the \<^verbatim>\<open>try\<close> block of \<^verbatim>\<open>get_fee_analytics\<close>, so is the
  summation: whatever either raises, the handler turns into the normal result with the
  empty \<^verbatim>\<open>overall\<close>, and the function never raises.
\<close>

lemma overall_of_scan_fault:
  "fault t = Some e \<Longrightarrow> overall_of_scan float_of_str t = Inl e"
  by (simp add: overall_of_scan_def scan_def)

lemma get_fee_analytics_caught:
  "overall_of_scan float_of_str t = Inl e \<Longrightarrow>
   get_fee_analytics float_of_str t = Inr \<lparr> by_deal_size = [], overall = None, top_users = [] \<rparr>"
  by (simp add: get_fee_analytics_def)

lemma get_fee_analytics_returns:
  "\<exists>a. get_fee_analytics float_of_str t = Inr a"
  by (simp add: get_fee_analytics_def Let_def split: sum.splits)

text \<open>
  Claim C8, as amended. Every operation of the ledger store other than
  \<^verbatim>\<open>get_fee_analytics\<close> ends with the exception that boto3 raised when a request of
  it fails, unchanged (given arguments that pass boto3's own checks before the request:
  numbers that can be serialised, a limit of at least 1 for
  \<^verbatim>\<open>get_wallet_transactions\<close>); for \<^verbatim>\<open>get_contract_for_compliance\<close> that is its
  first request or, once a contract has been found, its second. \<^verbatim>\<open>get_fee_analytics\<close>
  never raises: whatever its scan or its summation raises is caught, and it returns the
  analytics dictionary with an empty \<^verbatim>\<open>overall\<close>.
\<close>

theorem store_failure_propagation:
  assumes "fault t = Some e"
    and "serialization_error platform_fee_percent = None"
    and "serialization_error deployment_fee = None"
    and "serialization_error (PInt appearances_required) = None"
    and "serialization_error (PInt payment_amount) = None"
    and "serialization_error (PInt amount) = None"
    and "serialization_error (PDecimal fee_usd) = None"
    and "1 \<le> limit"
    and "get_contract t_before contract_id = Inr (Some contract)" and "contract \<noteq> []"
    and "overall_of_scan float_of_str t_raising = Inl e_raised"
  shows "create_user t user_id email role created_at updated_at = Inl e \<and>
         get_user t user_id = Inl e \<and>
         create_contract t user_id athlete_wallet sponsor_wallet contract_address abi
           appearances_required payment_amount platform_fee_percent deployment_fee
           contract_id created_at = Inl e \<and>
         get_contract t contract_id = Inl e \<and>
         get_user_contracts t user_id = Inl e \<and>
         log_transaction t contract_id tx_hash tx_type amount recipient_wallet tx_id created_at
           = Inl e \<and>
         get_contract_transactions t contract_id = Inl e \<and>
         get_wallet_transactions t wallet_address limit = Inl e \<and>
         record_deployment_fee t user_id user_type contract_type fee_usd fee_id created_at
           = Inl e \<and>
         record_subscription_fee t user_id user_type plan_name fee_usd sub_id created_at
           now_plus_days = Inl e \<and>
         record_premium_fee t user_id user_type feature_name fee_usd feature_id created_at
           = Inl e \<and>
         get_transactions_by_date_range t start_date end_date entity_type = Inl e \<and>
         get_contract_for_compliance t t_later contract_id = Inl e \<and>
         get_contract_for_compliance t_before t contract_id = Inl e \<and>
         get_fee_analytics float_of_str t =
           Inr \<lparr> by_deal_size = [], overall = None, top_users = [] \<rparr> \<and>
         get_fee_analytics float_of_str t_raising =
           Inr \<lparr> by_deal_size = [], overall = None, top_users = [] \<rparr> \<and>
         (\<exists>a. get_fee_analytics float_of_str t_any = Inr a)"
proof -
  have "get_fee_analytics float_of_str t =
          Inr \<lparr> by_deal_size = [], overall = None, top_users = [] \<rparr>"
    using assms(1) by (intro get_fee_analytics_caught overall_of_scan_fault)
  moreover have "get_fee_analytics float_of_str t_raising =
          Inr \<lparr> by_deal_size = [], overall = None, top_users = [] \<rparr>"
    using assms(11) by (rule get_fee_analytics_caught)
  moreover have "get_contract_for_compliance t_before t contract_id = Inl e"
    using assms(9,10,1) by (rule get_contract_for_compliance_second_fault)
  moreover have "\<exists>a. get_fee_analytics float_of_str t_any = Inr a"
    by (rule get_fee_analytics_returns)
  ultimately show ?thesis
    using assms(1-8)
    by (simp add: create_user_fault create_contract_fault log_transaction_fault
        get_wallet_transactions_fault record_deployment_fee_fault record_subscription_fee_fault
        record_premium_fee_fault get_contract_for_compliance_first_fault
        get_user_def get_contract_def get_user_contracts_def get_contract_transactions_def
        get_transactions_by_date_range_def query_fault get_item_fault)
qed

lemma example_contract_found:
  "get_contract
     \<lparr>stored_items = [[(''PK'', PStr ''CONTRACT#c1''), (''SK'', PStr ''METADATA''),
                       (''user_id'', PStr ''u1'')]],
      fault = None\<rparr> ''c1''
   = Inr (Some [(''PK'', PStr ''CONTRACT#c1''), (''SK'', PStr ''METADATA''),
                (''user_id'', PStr ''u1'')])"
  by code_simp

lemma example_summation_raises:
  "overall_of_scan (\<lambda>s. None)
     \<lparr>stored_items = [[(''PK'', PStr ''FEE#f1''), (''SK'', PStr ''DEPLOYMENT''),
                       (''fee_usd'', PStr ''n/a'')]],
      fault = None\<rparr>
   = Inl ValueError"
  by code_simp

theorem store_failure_propagation_witness:
  "fault \<lparr>stored_items = [], fault = Some (ClientError ''ServiceUnavailable'')\<rparr>
     = Some (ClientError ''ServiceUnavailable'') \<and>
   serialization_error (PInt 4) = None \<and> serialization_error (PDecimal (25 / 2)) = None \<and>
   serialization_error (PInt 5) = None \<and> serialization_error (PInt 1000) = None \<and>
   (1::int) \<le> 50 \<and>
   get_contract
     \<lparr>stored_items = [[(''PK'', PStr ''CONTRACT#c1''), (''SK'', PStr ''METADATA''),
                       (''user_id'', PStr ''u1'')]],
      fault = None\<rparr> ''c1''
     = Inr (Some [(''PK'', PStr ''CONTRACT#c1''), (''SK'', PStr ''METADATA''),
                  (''user_id'', PStr ''u1'')]) \<and>
   overall_of_scan (\<lambda>s. None)
     \<lparr>stored_items = [[(''PK'', PStr ''FEE#f1''), (''SK'', PStr ''DEPLOYMENT''),
                       (''fee_usd'', PStr ''n/a'')]],
      fault = None\<rparr>
     = Inl ValueError \<and>
   create_contract \<lparr>stored_items = [], fault = Some (ClientError ''ServiceUnavailable'')\<rparr>
     ''u1'' ''0xAthlete'' ''0xSponsor'' ''0xContract'' ''[]'' 5 1000 (PInt 4) (PDecimal (25 / 2))
     ''c1'' ''2024-01-15T10:00:00'' = Inl (ClientError ''ServiceUnavailable'') \<and>
   get_contract \<lparr>stored_items = [], fault = Some (ClientError ''ServiceUnavailable'')\<rparr> ''c1''
     = Inl (ClientError ''ServiceUnavailable'') \<and>
   get_wallet_transactions
     \<lparr>stored_items = [], fault = Some (ClientError ''ServiceUnavailable'')\<rparr> ''0xAthlete'' 50
     = Inl (ClientError ''ServiceUnavailable'') \<and>
   record_deployment_fee \<lparr>stored_items = [], fault = Some (ClientError ''ServiceUnavailable'')\<rparr>
     ''u1'' ''athlete'' ''sponsorship'' (25 / 2) ''f1'' ''2024-01-15T10:00:00''
     = Inl (ClientError ''ServiceUnavailable'') \<and>
   get_transactions_by_date_range
     \<lparr>stored_items = [], fault = Some (ClientError ''ServiceUnavailable'')\<rparr>
     ''2024-01-01'' ''2024-02-01'' ''FEE'' = Inl (ClientError ''ServiceUnavailable'') \<and>
   get_contract_for_compliance
     \<lparr>stored_items = [[(''PK'', PStr ''CONTRACT#c1''), (''SK'', PStr ''METADATA''),
                       (''user_id'', PStr ''u1'')]],
      fault = None\<rparr>
     \<lparr>stored_items = [], fault = Some (ClientError ''ServiceUnavailable'')\<rparr> ''c1''
     = Inl (ClientError ''ServiceUnavailable'') \<and>
   get_fee_analytics (\<lambda>s. None)
     \<lparr>stored_items = [], fault = Some (ClientError ''ServiceUnavailable'')\<rparr>
     = Inr \<lparr> by_deal_size = [], overall = None, top_users = [] \<rparr> \<and>
   get_fee_analytics (\<lambda>s. None)
     \<lparr>stored_items = [[(''PK'', PStr ''FEE#f1''), (''SK'', PStr ''DEPLOYMENT''),
                       (''fee_usd'', PStr ''n/a'')]],
      fault = None\<rparr>
     = Inr \<lparr> by_deal_size = [], overall = None, top_users = [] \<rparr>"
proof -
  have h: "fault \<lparr>stored_items = [], fault = Some (ClientError ''ServiceUnavailable'')\<rparr>
             = Some (ClientError ''ServiceUnavailable'')"
    by simp
  have i: "serialization_error (PInt 5) = None" "serialization_error (PInt 1000) = None"
    and l: "(1::int) \<le> 50" and ne: "[(''PK'', PStr ''CONTRACT#c1''), (''SK'', PStr ''METADATA''),
                  (''user_id'', PStr ''u1'')] \<noteq> []"
    by simp_all
  note w = store_failure_propagation [OF h example_numbers(1,5) i i(2) example_numbers(5) l
      example_contract_found ne example_summation_raises]
  show ?thesis
    using h example_numbers(1,5) i l example_contract_found example_summation_raises w
    by simp
qed

text \<open>
  Claim C8 as the specification states it fails for the analytics: with fee records
  stored and the backend failing, \<^verbatim>\<open>get_fee_analytics\<close> returns a normal result.
\<close>

theorem get_fee_analytics_swallows_failure_counterexample:
  "get_fee_analytics (\<lambda>s. None)
     \<lparr>stored_items =
        [[(''PK'', PStr ''FEE#f1''), (''SK'', PStr ''DEPLOYMENT''),
          (''fee_usd'', PDecimal (25 / 2)), (''GSI2PK'', PStr ''FEE''),
          (''GSI2SK'', PStr ''2024-01-15T10:00:00'')]],
      fault = Some (ClientError ''ServiceUnavailable'')\<rparr>
     = Inr \<lparr> by_deal_size = [], overall = None, top_users = [] \<rparr>"
  by code_simp

end
